theory Spec2Isabelle
  imports Main
begin

section \<open>Values, errors and responses\<close>

text \<open>
  A compiled \<^verbatim>\<open>*regexp.Regexp\<close> is represented by what \<^verbatim>\<open>MatchString\<close> answers on it.
  The regular-expression engine itself belongs to the Go standard library; compiling a
  pattern string is a parameter of the model (see \<open>platform\<close> below).
\<close>

type_synonym regexp = "string \<Rightarrow> bool"

definition MatchString :: "regexp \<Rightarrow> string \<Rightarrow> bool" where
  "MatchString re s = re s"

text \<open>
  The dynamic values of a \<^verbatim>\<open>map[string]interface{}\<close>: the two shapes the handlers switch
  on (\<^verbatim>\<open>string\<close>, \<^verbatim>\<open>[]string\<close>), integers (as in the tests' \<^verbatim>\<open>"exp": 1234\<close>), and any
  other dynamic type, kept by the name \<^verbatim>\<open>%T\<close> prints for it.
\<close>

datatype val = VString string | VStrings "string list" | VInt int | VOther string

fun typeName :: "val \<Rightarrow> string" where
  "typeName (VString s) = ''string''"
| "typeName (VStrings ss) = ''[]string''"
| "typeName (VInt i) = ''int''"
| "typeName (VOther t) = t"

type_synonym claimsMap = "(string \<times> val) list"

text \<open>
  A Go map is iterated in an order the runtime chooses. A claims map is an association list
  whose order stands for that iteration order; \<^verbatim>\<open>m[k]\<close> is \<open>map_of m k\<close>.
\<close>

fun digitChar :: "nat \<Rightarrow> char" where
  "digitChar d =
     (if d = 0 then CHR ''0'' else if d = 1 then CHR ''1'' else if d = 2 then CHR ''2''
      else if d = 3 then CHR ''3'' else if d = 4 then CHR ''4'' else if d = 5 then CHR ''5''
      else if d = 6 then CHR ''6'' else if d = 7 then CHR ''7'' else if d = 8 then CHR ''8''
      else CHR ''9'')"

fun formatDecimal :: "nat \<Rightarrow> string" where
  "formatDecimal n =
     (if n < 10 then [digitChar n] else formatDecimal (n div 10) @ [digitChar (n mod 10)])"

declare formatDecimal.simps [simp del]

text \<open>
  Go errors: the sentinel \<^verbatim>\<open>logical.ErrInvalidRequest\<close>, an error made by \<^verbatim>\<open>fmt.Errorf\<close>,
  and an error handed back by a collaborator (storage, JSON codec, regexp compiler,
  configuration loader).
\<close>

datatype error = ErrInvalidRequest | Errorf string | CollaboratorError string

section \<open>Role and configuration\<close>

record Role =
  Issuer :: string
  Claims :: claimsMap
  SubjectPattern :: "regexp option"
  AudiencePattern :: "regexp option"

text \<open>The zero value \<^verbatim>\<open>&Role{}\<close>; a nil claims map reads as an empty one.\<close>

definition emptyRole :: Role where
  "emptyRole = \<lparr>Issuer = [], Claims = [], SubjectPattern = None, AudiencePattern = None\<rparr>"

text \<open>
  Modelled from the spec: the declaration of the configuration type is not among the
  sources. The fields are the three that \<^verbatim>\<open>pathRolesWrite\<close> reads, under the names it uses:
  \<^verbatim>\<open>allowedClaimsMap\<close> (a \<^verbatim>\<open>map[string]bool\<close>), \<^verbatim>\<open>AudiencePattern\<close> (a compiled
  pattern; the spec's invariant is that it compiles, so it is never nil) and
  \<^verbatim>\<open>MaxAudiences\<close> (\<open>-1\<close> for unbounded).
\<close>

record Config =
  allowedClaimsMap :: "string \<rightharpoonup> bool"
  AudiencePattern :: regexp
  MaxAudiences :: int

text \<open>
  The data of \<^verbatim>\<open>toResponseData\<close>: a map with the four keys issuer, claims, subject pattern
  and audience pattern.
\<close>

record ResponseData =
  respIssuer :: string
  respClaims :: claimsMap
  respSubjectPattern :: "regexp option"
  respAudiencePattern :: "regexp option"

definition toResponseData :: "Role \<Rightarrow> ResponseData" where
  "toResponseData r =
     \<lparr>respIssuer = Issuer r,
      respClaims = Claims r,
      respSubjectPattern = SubjectPattern r,
      respAudiencePattern = Role.AudiencePattern r\<rparr>"

text \<open>
  A \<^verbatim>\<open>*logical.Response\<close> is either an error response carrying a message or a response
  carrying data. A handler returns a pair (response, error), each possibly nil.
\<close>

datatype response = ErrorResponse string | Response ResponseData

type_synonym result = "response option \<times> error option"

section \<open>Requests and storage\<close>

datatype operation =
  CreateOperation | ReadOperation | UpdateOperation | DeleteOperation | ListOperation

record Request =
  Operation :: operation

text \<open>
  The parsed fields of a request, one per entry of the schema declared by \<^verbatim>\<open>pathRole\<close>;
  \<open>None\<close> is a field the request did not supply (\<^verbatim>\<open>GetOk\<close> answers \<^verbatim>\<open>ok = false\<close>).
\<close>

record FieldData =
  keyRoleName :: "string option"
  keyIssuer :: "string option"
  keyClaims :: "claimsMap option"
  keySubjectPattern :: "string option"
  keyAudiencePattern :: "string option"
  keyMaxAllowedAudiences :: "int option"
  keyAllowedClaims :: "string list option"

text \<open>\<^verbatim>\<open>d.Get(keyRoleName).(string)\<close>: the value, or the zero value of the field's type.\<close>

definition GetRoleName :: "FieldData \<Rightarrow> string" where
  "GetRoleName d = (case keyRoleName d of None \<Rightarrow> [] | Some n \<Rightarrow> n)"

record StorageEntry =
  Key :: string
  Value :: string

text \<open>
  The storage collaborator (\<^verbatim>\<open>logical.Storage\<close>): the entries by path, which paths a \<^verbatim>\<open>Get\<close>
  or a \<^verbatim>\<open>Put\<close> fails on and with what error, and a count of the \<^verbatim>\<open>Put\<close> calls made.
\<close>

record Storage =
  entries :: "string \<rightharpoonup> StorageEntry"
  getFailure :: "string \<rightharpoonup> error"
  putFailure :: "string \<rightharpoonup> error"
  putCount :: nat

definition StorageGet :: "Storage \<Rightarrow> string \<Rightarrow> error + StorageEntry option" where
  "StorageGet stg p =
     (case getFailure stg p of
        Some err \<Rightarrow> Inl err
      | None \<Rightarrow> Inr (entries stg p))"

definition StoragePut :: "Storage \<Rightarrow> StorageEntry \<Rightarrow> error option \<times> Storage" where
  "StoragePut stg entry =
     (case putFailure stg (Key entry) of
        Some err \<Rightarrow> (Some err, stg\<lparr>putCount := Suc (putCount stg)\<rparr>)
      | None \<Rightarrow>
          (None, stg\<lparr>entries := (entries stg)(Key entry \<mapsto> entry),
                      putCount := Suc (putCount stg)\<rparr>))"

text \<open>
  What the handlers call outside this package's role file: \<^verbatim>\<open>regexp.Compile\<close>,
  \<^verbatim>\<open>path.Join\<close>, the JSON codec of storage entries (\<^verbatim>\<open>entry.DecodeJSON\<close>,
  \<^verbatim>\<open>logical.StorageEntryJSON\<close>) and the backend's configuration loader \<^verbatim>\<open>getConfig\<close>.
  Each is a parameter: the theorems hold for every choice of them.
\<close>

record platform =
  regexpCompile :: "string \<Rightarrow> error + regexp"
  pathJoin :: "string \<Rightarrow> string \<Rightarrow> string"
  DecodeJSON :: "StorageEntry \<Rightarrow> error + Role"
  StorageEntryJSON :: "string \<Rightarrow> Role \<Rightarrow> error + StorageEntry option"
  getConfig :: "Storage \<Rightarrow> error + Config"

definition keyStorageRolePath :: string where
  "keyStorageRolePath = ''role''"

section \<open>The role store (path_roles.go)\<close>

definition getRole :: "platform \<Rightarrow> Storage \<Rightarrow> string \<Rightarrow> error + Role option" where
  "getRole P stg nm =
     (if nm = [] then Inl (Errorf ''missing role name'')
      else
        (case StorageGet stg (pathJoin P keyStorageRolePath nm) of
           Inl err \<Rightarrow> Inl err
         | Inr None \<Rightarrow> Inr None
         | Inr (Some entry) \<Rightarrow>
             (case DecodeJSON P entry of
                Inl err \<Rightarrow> Inl err
              | Inr role \<Rightarrow> Inr (Some role))))"

definition setRole :: "platform \<Rightarrow> Storage \<Rightarrow> string \<Rightarrow> Role \<Rightarrow> error option \<times> Storage" where
  "setRole P stg nm role =
     (case StorageEntryJSON P (pathJoin P keyStorageRolePath nm) role of
        Inl err \<Rightarrow> (Some err, stg)
      | Inr None \<Rightarrow> (Some (Errorf ''failed to create storage entry for role''), stg)
      | Inr (Some entry) \<Rightarrow> StoragePut stg entry)"

definition pathRolesRead :: "platform \<Rightarrow> Storage \<Rightarrow> FieldData \<Rightarrow> result" where
  "pathRolesRead P stg d =
     (case getRole P stg (GetRoleName d) of
        Inl err \<Rightarrow> (None, Some err)
      | Inr None \<Rightarrow> (None, None)
      | Inr (Some role) \<Rightarrow> (Some (Response (toResponseData role)), None))"

text \<open>
  \<^verbatim>\<open>pathRolesWrite\<close>, the part that applies the request's fields to the role (from
  \<^verbatim>\<open>createOperation := ...\<close> to the second \<^verbatim>\<open>regexp.Compile\<close>). Every failure there is
  returned as \<^verbatim>\<open>nil, err\<close>, so the part answers the error or the updated role.
\<close>

definition applyFields :: "platform \<Rightarrow> Request \<Rightarrow> FieldData \<Rightarrow> Role \<Rightarrow> error + Role" where
  "applyFields P req d role =
     (let createOperation = (Operation req = CreateOperation) in
      if keyIssuer d = None \<and> createOperation then Inl (Errorf ''missing issuer in role'')
      else
        let role1 = (case keyIssuer d of Some newIssuer \<Rightarrow> role\<lparr>Issuer := newIssuer\<rparr>
                     | None \<Rightarrow> role);
            role2 = (case keyClaims d of Some newClaims \<Rightarrow> role1\<lparr>Claims := newClaims\<rparr>
                     | None \<Rightarrow> role1)
        in
          (case (case keyAudiencePattern d of
                   None \<Rightarrow> Inr role2
                 | Some newAudiencePattern \<Rightarrow>
                     (case regexpCompile P newAudiencePattern of
                        Inl err \<Rightarrow> Inl err
                      | Inr pattern \<Rightarrow> Inr (role2\<lparr>Role.AudiencePattern := Some pattern\<rparr>))) of
             Inl err \<Rightarrow> Inl err
           | Inr role3 \<Rightarrow>
               (case keySubjectPattern d of
                  None \<Rightarrow> Inr role3
                | Some newSubjectPattern \<Rightarrow>
                    (case regexpCompile P newSubjectPattern of
                       Inl err \<Rightarrow> Inl err
                     | Inr pattern \<Rightarrow> Inr (role3\<lparr>SubjectPattern := Some pattern\<rparr>)))))"

text \<open>
  The loop \<^verbatim>\<open>for claim := range role.Claims\<close>: the first claim, in iteration order, that
  the configuration does not allow (\<^verbatim>\<open>!ok || !allowedClaim\<close>), if there is one.
\<close>

fun firstDisallowed :: "Config \<Rightarrow> claimsMap \<Rightarrow> string option" where
  "firstDisallowed config [] = None"
| "firstDisallowed config ((claim, v) # rest) =
     (case allowedClaimsMap config claim of
        None \<Rightarrow> Some claim
      | Some allowedClaim \<Rightarrow>
          if \<not> allowedClaim then Some claim else firstDisallowed config rest)"

text \<open>
  The loop \<^verbatim>\<open>for _, audEntry := range aud\<close>: whether it runs to its end without finding
  an entry the pattern rejects.
\<close>

fun allEntriesMatch :: "regexp \<Rightarrow> string list \<Rightarrow> bool" where
  "allEntriesMatch re [] = True"
| "allEntriesMatch re (audEntry # rest) =
     (if \<not> MatchString re audEntry then False else allEntriesMatch re rest)"

text \<open>
  \<^verbatim>\<open>pathRolesWrite\<close>, the checks between the field updates and \<^verbatim>\<open>setRole\<close>. Every failure
  there is returned as \<^verbatim>\<open>logical.ErrorResponse(msg), logical.ErrInvalidRequest\<close>, so the
  part answers the message of the first failing check, or \<open>None\<close> when all pass.
\<close>

definition validateClaims :: "Config \<Rightarrow> Role \<Rightarrow> string option" where
  "validateClaims config role =
     (case firstDisallowed config (Claims role) of
        Some claim \<Rightarrow> Some (''claim '' @ claim @ '' not permitted'')
      | None \<Rightarrow>
          if map_of (Claims role) ''iss'' \<noteq> None
          then Some '''iss' claim cannot be present in 'claims' field''
          else if map_of (Claims role) ''sub'' \<noteq> None
          then Some '''sub' claim cannot be present in 'claims' field''
          else
            (case map_of (Claims role) ''aud'' of
               None \<Rightarrow> None
             | Some rawAud \<Rightarrow>
                 (case rawAud of
                    VString aud \<Rightarrow>
                      if \<not> MatchString (Config.AudiencePattern config) aud
                      then Some ''validation of 'aud' claim failed''
                      else None
                  | VStrings aud \<Rightarrow>
                      if MaxAudiences config > -1 \<and> int (length aud) > MaxAudiences config
                      then Some (''too many audience claims: '' @ formatDecimal (length aud))
                      else if \<not> allEntriesMatch (Config.AudiencePattern config) aud
                      then Some ''validation of 'aud' claim failed''
                      else None
                  | _ \<Rightarrow>
                      Some ('''aud' claim was '' @ typeName rawAud
                            @ '', not string or []string''))))"

definition pathRolesWrite ::
  "platform \<Rightarrow> Request \<Rightarrow> Storage \<Rightarrow> FieldData \<Rightarrow> result \<times> Storage" where
  "pathRolesWrite P req stg d =
     (case keyRoleName d of
        None \<Rightarrow> ((Some (ErrorResponse ''missing role name''), None), stg)
      | Some nm \<Rightarrow>
          (case getRole P stg nm of
             Inl err \<Rightarrow> ((None, Some err), stg)
           | Inr stored \<Rightarrow>
               (case getConfig P stg of
                  Inl err \<Rightarrow> ((None, Some err), stg)
                | Inr config \<Rightarrow>
                    (case applyFields P req d
                            (case stored of None \<Rightarrow> emptyRole | Some r \<Rightarrow> r) of
                       Inl err \<Rightarrow> ((None, Some err), stg)
                     | Inr role \<Rightarrow>
                         (case validateClaims config role of
                            Some msg \<Rightarrow>
                              ((Some (ErrorResponse msg), Some ErrInvalidRequest), stg)
                          | None \<Rightarrow>
                              (case setRole P stg nm role of
                                 (Some err, stg') \<Rightarrow> ((None, Some err), stg')
                               | (None, stg') \<Rightarrow> ((None, None), stg')))))))"

section \<open>The claim merge and validation engine\<close>

text \<open>
  Modelled from the spec: the role of the spec's data model carries an optional ceiling on
  the number of audiences (\<open>maxAudiences: optional int\<close>). The \<^verbatim>\<open>Role\<close> struct of
  path_roles.go has no such field, so the spec's role is that struct extended by it.
\<close>

record RoleSpec = Role +
  maxAudiences :: "int option"

text \<open>
  Modelled from the spec: the sign handler is not among the sources. Section 4.1, step 5,
  needs the moment of a sign request: the current time, the effective token lifetime and
  the freshly generated token identifier.
\<close>

record SignContext =
  now :: int
  lifetime :: int
  jti :: string

text \<open>
  Modelled from the spec: the sign handler is not among the sources. Section 4.1 gives
  each step of the merge a failure of its own; section 7 sets a malformed \<open>aud\<close> apart
  from the policy violations. The reserved structural keys are those of step 1.
\<close>

datatype mergeError =
  ReservedClaim string
  | RoleFixedClaim string
  | ClaimNotAllowed string
  | SubjectMismatch
  | AudienceMismatch
  | TooManyAudiences
  | MalformedAudience

definition reservedStructural :: "string list" where
  "reservedStructural = [''iss'', ''exp'', ''iat'', ''nbf'', ''jti'']"

text \<open>
  Modelled from the spec: the sign handler is not among the sources. Section 4.1, step 4:
  the effective audience pattern is the role's if set, else the configuration's.
\<close>

definition effectiveAudiencePattern :: "RoleSpec \<Rightarrow> Config \<Rightarrow> regexp" where
  "effectiveAudiencePattern role config =
     (case Role.AudiencePattern role of
        Some pattern \<Rightarrow> pattern
      | None \<Rightarrow> Config.AudiencePattern config)"

text \<open>
  Modelled from the spec: the sign handler is not among the sources. Section 4.1, step 4:
  the effective maximum audience count is the role's if set, else the configuration's.
\<close>

definition effectiveMaxAudiences :: "RoleSpec \<Rightarrow> Config \<Rightarrow> int" where
  "effectiveMaxAudiences role config =
     (case maxAudiences role of
        Some n \<Rightarrow> n
      | None \<Rightarrow> MaxAudiences config)"

text \<open>
  Modelled from the spec: the sign handler is not among the sources. Section 4.1, step 3:
  a requested \<open>sub\<close> must match the role's subject pattern when the role sets one; the
  configuration defines no subject default.
\<close>

definition checkSubject :: "RoleSpec \<Rightarrow> val option \<Rightarrow> mergeError option" where
  "checkSubject role rawSub =
     (case rawSub of
        None \<Rightarrow> None
      | Some v \<Rightarrow>
          (case SubjectPattern role of
             None \<Rightarrow> None
           | Some pattern \<Rightarrow>
               (case v of
                  VString sub \<Rightarrow> if MatchString pattern sub then None else Some SubjectMismatch
                | _ \<Rightarrow> Some SubjectMismatch)))"

text \<open>
  Modelled from the spec: the sign handler is not among the sources. Section 4.1, step 4:
  a single string must match the effective pattern; a list must not be longer than the
  effective maximum (when that is not \<open>-1\<close>) and each of its elements must match; any
  other type of value is rejected as a type error.
\<close>

definition checkAudience :: "RoleSpec \<Rightarrow> Config \<Rightarrow> val option \<Rightarrow> mergeError option" where
  "checkAudience role config rawAud =
     (case rawAud of
        None \<Rightarrow> None
      | Some (VString aud) \<Rightarrow>
          if MatchString (effectiveAudiencePattern role config) aud then None
          else Some AudienceMismatch
      | Some (VStrings aud) \<Rightarrow>
          if effectiveMaxAudiences role config \<noteq> -1
             \<and> int (length aud) > effectiveMaxAudiences role config
          then Some TooManyAudiences
          else if list_all (MatchString (effectiveAudiencePattern role config)) aud then None
          else Some AudienceMismatch
      | Some _ \<Rightarrow> Some MalformedAudience)"

text \<open>
  Modelled from the spec: the sign handler is not among the sources. Section 4.1, step 5:
  start from the role's static claims, overlay the request's claims (all of them are
  \<open>aud\<close>, \<open>sub\<close> or allow-listed once steps 1 to 4 have passed), then set the computed
  reserved claims last.
\<close>

definition composeClaims :: "RoleSpec \<Rightarrow> SignContext \<Rightarrow> claimsMap \<Rightarrow> (string \<rightharpoonup> val)" where
  "composeClaims role ctx requestClaims =
     (map_of (Claims role) ++ map_of requestClaims)
       (''iss'' \<mapsto> VString (Issuer role),
        ''iat'' \<mapsto> VInt (now ctx),
        ''nbf'' \<mapsto> VInt (now ctx),
        ''exp'' \<mapsto> VInt (now ctx + lifetime ctx),
        ''jti'' \<mapsto> VString (jti ctx))"

text \<open>
  Modelled from the spec: the sign handler is not among the sources. Section 4.1, the
  contract \<open>merge(role, config, requestClaims) -> (finalClaims, error)\<close>, its steps in
  their strict order, each failing with an error of its own. Step 2 rejects a request key
  that the role's static claims already fix; the spec's scenario of a role with a static
  \<open>aud\<close> and a request that supplies \<open>aud\<close> too is rejected by this step, so the step
  applies to \<open>aud\<close> as well. Every other request key except \<open>aud\<close> and \<open>sub\<close> must be a
  member of the configuration's allowed claims.
\<close>

definition merge ::
  "RoleSpec \<Rightarrow> Config \<Rightarrow> SignContext \<Rightarrow> claimsMap \<Rightarrow> mergeError + (string \<rightharpoonup> val)" where
  "merge role config ctx requestClaims =
     (case find (\<lambda>k. k \<in> set reservedStructural) (map fst requestClaims) of
        Some k \<Rightarrow> Inl (ReservedClaim k)
      | None \<Rightarrow>
     (case find (\<lambda>k. map_of (Claims role) k \<noteq> None) (map fst requestClaims) of
        Some k \<Rightarrow> Inl (RoleFixedClaim k)
      | None \<Rightarrow>
     (case find (\<lambda>k. k \<noteq> ''aud'' \<and> k \<noteq> ''sub'' \<and> allowedClaimsMap config k \<noteq> Some True)
             (map fst requestClaims) of
        Some k \<Rightarrow> Inl (ClaimNotAllowed k)
      | None \<Rightarrow>
     (case checkSubject role (map_of requestClaims ''sub'') of
        Some err \<Rightarrow> Inl err
      | None \<Rightarrow>
     (case checkAudience role config (map_of requestClaims ''aud'') of
        Some err \<Rightarrow> Inl err
      | None \<Rightarrow> Inr (composeClaims role ctx requestClaims))))))"

text \<open>
  Modelled from the spec: the sign handler is not among the sources. Sections 2, 6 and 7:
  a sign request for an unknown role is an error; the merged claim set is handed to the
  token signer only after validation has fully succeeded. The signer is a parameter.
\<close>

datatype signError = UnknownRole | PolicyViolation mergeError

definition signRequest ::
  "((string \<rightharpoonup> val) \<Rightarrow> string) \<Rightarrow> RoleSpec option \<Rightarrow> Config \<Rightarrow> SignContext \<Rightarrow> claimsMap
     \<Rightarrow> signError + string" where
  "signRequest signer stored config ctx requestClaims =
     (case stored of
        None \<Rightarrow> Inl UnknownRole
      | Some role \<Rightarrow>
          (case merge role config ctx requestClaims of
             Inl err \<Rightarrow> Inl (PolicyViolation err)
           | Inr finalClaims \<Rightarrow> Inr (signer finalClaims)))"

section \<open>Concrete collaborators and requests\<close>

text \<open>
  A small stand-in for the collaborators, used to run the handlers on concrete requests:
  a pattern compiler that knows \<^verbatim>\<open>.*\<close> (matches everything), rejects \<^verbatim>\<open>(\<close> and takes any
  other pattern as the one string it matches; \<^verbatim>\<open>path.Join\<close> on plain names; a codec that
  keeps the issuer only; and a configuration loader that answers a given configuration.
\<close>

definition demoCompile :: "string \<Rightarrow> error + regexp" where
  "demoCompile p =
     (if p = ''('' then Inl (CollaboratorError ''missing closing )'')
      else if p = ''.*'' then Inr (\<lambda>s. True)
      else Inr (\<lambda>s. s = p))"

definition demoPlatform :: "Config \<Rightarrow> platform" where
  "demoPlatform config =
     \<lparr>regexpCompile = demoCompile,
      pathJoin = (\<lambda>a b. a @ ''/'' @ b),
      DecodeJSON = (\<lambda>entry. Inr (emptyRole\<lparr>Issuer := Value entry\<rparr>)),
      StorageEntryJSON = (\<lambda>p role. Inr (Some \<lparr>Key = p, Value = Issuer role\<rparr>)),
      getConfig = (\<lambda>stg. Inr config)\<rparr>"

definition demoConfig :: "string list \<Rightarrow> Config" where
  "demoConfig allowed =
     \<lparr>allowedClaimsMap = map_of (map (\<lambda>c. (c, True)) allowed),
      AudiencePattern = (\<lambda>s. True),
      MaxAudiences = -1\<rparr>"

definition emptyStorage :: Storage where
  "emptyStorage =
     \<lparr>entries = Map.empty, getFailure = Map.empty, putFailure = Map.empty, putCount = 0\<rparr>"

definition createRequest :: Request where
  "createRequest = \<lparr>Operation = CreateOperation\<rparr>"

text \<open>The fields the tests' \<^verbatim>\<open>writeRole\<close> sends: a name, an issuer and a claims map.\<close>

definition writeRoleData :: "string \<Rightarrow> string \<Rightarrow> claimsMap \<Rightarrow> FieldData" where
  "writeRoleData nm iss cs =
     \<lparr>keyRoleName = Some nm, keyIssuer = Some iss, keyClaims = Some cs,
      keySubjectPattern = None, keyAudiencePattern = None,
      keyMaxAllowedAudiences = None, keyAllowedClaims = None\<rparr>"

text \<open>
  A configuration whose pattern accepts only the audience \<^verbatim>\<open>A\<close> and whose ceiling is one
  audience, and one whose pattern accepts no audience at all and that sets no ceiling.
\<close>

definition listConfig :: Config where
  "listConfig =
     \<lparr>allowedClaimsMap = [''aud'' \<mapsto> True], AudiencePattern = (\<lambda>s. s = ''A''),
      MaxAudiences = 1\<rparr>"

definition strictConfig :: Config where
  "strictConfig =
     \<lparr>allowedClaimsMap = Map.empty, AudiencePattern = (\<lambda>s. False), MaxAudiences = -1\<rparr>"

text \<open>A storage whose \<^verbatim>\<open>Get\<close> fails on the path of the role \<^verbatim>\<open>tester\<close>.\<close>

definition brokenStorage :: Storage where
  "brokenStorage =
     emptyStorage\<lparr>getFailure := [''role/tester'' \<mapsto> CollaboratorError ''storage down'']\<rparr>"

text \<open>
  The role of the sign tests (issuer \<^verbatim>\<open>tester.example.com\<close>, given static claims, nothing
  else set), the same role with an audience pattern of its own, the moment of the tests'
  mock clock (time 0, a lifetime of three minutes, token identifier \<^verbatim>\<open>1\<close>) and a stand-in
  signer.
\<close>

definition testerRole :: "claimsMap \<Rightarrow> RoleSpec" where
  "testerRole cs =
     \<lparr>Issuer = ''tester.example.com'', Claims = cs, SubjectPattern = None,
      AudiencePattern = None, maxAudiences = None\<rparr>"

definition patternRole :: "string \<Rightarrow> RoleSpec" where
  "patternRole p = (testerRole [])\<lparr>Role.AudiencePattern := Some (\<lambda>s. s = p)\<rparr>"

definition demoContext :: SignContext where
  "demoContext = \<lparr>now = 0, lifetime = 180, jti = ''1''\<rparr>"

definition demoSigner :: "(string \<rightharpoonup> val) \<Rightarrow> string" where
  "demoSigner finalClaims =
     (case finalClaims ''jti'' of Some (VString i) \<Rightarrow> ''token-'' @ i | _ \<Rightarrow> ''token'')"

text \<open>
  What the audience checks of \<^verbatim>\<open>pathRolesWrite\<close> object to, said without the loops: a string
  the configuration's pattern rejects, a list that is too long or has an entry the pattern
  rejects, or a value of another type.
\<close>

definition audViolation :: "Config \<Rightarrow> val option \<Rightarrow> bool" where
  "audViolation config a \<longleftrightarrow>
     (\<exists>aud. a = Some (VString aud) \<and> \<not> Config.AudiencePattern config aud)
   \<or> (\<exists>aud. a = Some (VStrings aud)
          \<and> ((MaxAudiences config > -1 \<and> int (length aud) > MaxAudiences config)
               \<or> (\<exists>e\<in>set aud. \<not> Config.AudiencePattern config e)))
   \<or> (\<exists>v. a = Some v \<and> (\<forall>s. v \<noteq> VString s) \<and> (\<forall>ss. v \<noteq> VStrings ss))"

section \<open>Auxiliary facts\<close>

lemmas demo_defs =
  pathRolesWrite_def pathRolesRead_def GetRoleName_def demoPlatform_def demoConfig_def
  demoCompile_def createRequest_def emptyStorage_def writeRoleData_def getRole_def
  StorageGet_def keyStorageRolePath_def applyFields_def emptyRole_def validateClaims_def
  setRole_def StoragePut_def MatchString_def listConfig_def brokenStorage_def

lemmas sign_defs =
  merge_def signRequest_def checkSubject_def checkAudience_def composeClaims_def
  effectiveAudiencePattern_def effectiveMaxAudiences_def reservedStructural_def
  MatchString_def testerRole_def patternRole_def demoContext_def demoConfig_def
  demoSigner_def strictConfig_def

lemma firstDisallowed_Some:
  "firstDisallowed config cs = Some c \<Longrightarrow>
   c \<in> fst ` set cs \<and> allowedClaimsMap config c \<noteq> Some True"
  by (induction cs) (auto split: option.splits if_splits)

lemma firstDisallowed_None:
  "firstDisallowed config cs = None
   \<longleftrightarrow> (\<forall>k\<in>fst ` set cs. allowedClaimsMap config k = Some True)"
  by (induction cs) (auto split: option.splits if_splits)

lemma allEntriesMatch_iff: "allEntriesMatch re xs \<longleftrightarrow> (\<forall>x\<in>set xs. re x)"
  by (induction xs) (auto simp: MatchString_def)

lemma map_of_keys: "map_of cs k \<noteq> None \<longleftrightarrow> k \<in> fst ` set cs"
  by (simp add: map_of_eq_None_iff)

lemma find_Some_ex: "x \<in> set xs \<Longrightarrow> P x \<Longrightarrow> \<exists>y. find P xs = Some y"
  by (cases "find P xs") (auto simp: find_None_iff)

lemma applyFields_Claims:
  "applyFields P req d role0 = Inr role \<Longrightarrow>
   Claims role = (case keyClaims d of Some cs \<Rightarrow> cs | None \<Rightarrow> Claims role0)"
  by (auto simp: applyFields_def Let_def split: if_splits option.splits sum.splits)

lemma applyFields_ignores_max:
  "applyFields P req (d\<lparr>keyMaxAllowedAudiences := m\<rparr>) = applyFields P req d"
  by (auto simp: applyFields_def fun_eq_iff Let_def split: option.splits sum.splits)

text \<open>Once the role, the configuration and the fields are in, the checks decide.\<close>

lemma pathRolesWrite_checked:
  assumes "keyRoleName d = Some nm" and "getRole P stg nm = Inr stored"
    and "getConfig P stg = Inr config"
    and "applyFields P req d (case stored of None \<Rightarrow> emptyRole | Some r \<Rightarrow> r) = Inr role"
  shows "pathRolesWrite P req stg d =
     (case validateClaims config role of
        Some msg \<Rightarrow> ((Some (ErrorResponse msg), Some ErrInvalidRequest), stg)
      | None \<Rightarrow> (case setRole P stg nm role of (e, stg') \<Rightarrow> ((None, e), stg')))"
  using assms by (simp add: pathRolesWrite_def split: option.splits prod.splits)

lemma validateClaims_allowed:
  assumes "firstDisallowed config (Claims role) = None"
  shows "validateClaims config role \<noteq> None \<longleftrightarrow>
     map_of (Claims role) ''iss'' \<noteq> None \<or> map_of (Claims role) ''sub'' \<noteq> None
     \<or> audViolation config (map_of (Claims role) ''aud'')"
  using assms
  by (cases "map_of (Claims role) ''aud''")
     (auto simp: validateClaims_def audViolation_def allEntriesMatch_iff MatchString_def
           split: val.splits)

lemma validateClaims_Some_iff:
  "validateClaims config role \<noteq> None \<longleftrightarrow>
     (\<exists>k\<in>fst ` set (Claims role). allowedClaimsMap config k \<noteq> Some True)
   \<or> map_of (Claims role) ''iss'' \<noteq> None
   \<or> map_of (Claims role) ''sub'' \<noteq> None
   \<or> audViolation config (map_of (Claims role) ''aud'')"
proof (cases "firstDisallowed config (Claims role)")
  case (Some c)
  have "validateClaims config role \<noteq> None"
    using Some by (simp add: validateClaims_def)
  moreover have "\<exists>k\<in>fst ` set (Claims role). allowedClaimsMap config k \<noteq> Some True"
    using firstDisallowed_Some[OF Some] by blast
  ultimately show ?thesis by blast
next
  case None
  then have "\<not> (\<exists>k\<in>fst ` set (Claims role). allowedClaimsMap config k \<noteq> Some True)"
    by (simp add: firstDisallowed_None)
  then show ?thesis
    using validateClaims_allowed[OF None] by blast
qed

section \<open>Writing a role: which claims are refused\<close>

text \<open>
  Claim C1, as the code has it. A role write that gets as far as the claim checks (the
  name is given, the stored role and the configuration load, the fields apply) and whose
  submitted claims map contains \<open>iss\<close> or \<open>sub\<close> is refused with an error response and
  \<^verbatim>\<open>ErrInvalidRequest\<close>, whatever the configuration allows, and the storage is left as it
  was. A submitted \<open>exp\<close>, \<open>iat\<close>, \<open>nbf\<close> or \<open>jti\<close> is refused in the same way when the
  configuration's allowed-claims map does not enable it.
\<close>

theorem role_write_rejects_reserved_claims:
  assumes "keyRoleName d = Some nm" and "getRole P stg nm = Inr stored"
    and "getConfig P stg = Inr config"
    and "applyFields P req d (case stored of None \<Rightarrow> emptyRole | Some r \<Rightarrow> r) = Inr role"
    and "keyClaims d = Some cs" and "k \<in> fst ` set cs"
    and "k \<in> {''iss'', ''sub''}
         \<or> (k \<in> {''exp'', ''iat'', ''nbf'', ''jti''} \<and> allowedClaimsMap config k \<noteq> Some True)"
  shows "\<exists>msg. pathRolesWrite P req stg d
           = ((Some (ErrorResponse msg), Some ErrInvalidRequest), stg)"
proof -
  have cs: "Claims role = cs"
    using applyFields_Claims[OF assms(4)] assms(5) by simp
  have "map_of cs k \<noteq> None"
    using assms(6) map_of_keys[of cs k] by blast
  then have "validateClaims config role \<noteq> None"
    unfolding validateClaims_Some_iff cs using assms(6,7) by auto
  then show ?thesis
    using pathRolesWrite_checked[OF assms(1-4)] by auto
qed

text \<open>
  The theorem at work: the configuration allow-lists \<open>iss\<close>, and a role whose claims set
  \<open>iss\<close> is refused all the same.
\<close>

theorem role_write_rejects_reserved_claims_witness:
  "\<exists>msg. pathRolesWrite (demoPlatform (demoConfig [''iss''])) createRequest emptyStorage
            (writeRoleData ''tester'' ''tester.example.com'' [(''iss'', VString ''someone.else'')])
         = ((Some (ErrorResponse msg), Some ErrInvalidRequest), emptyStorage)"
  by (rule role_write_rejects_reserved_claims[where nm = "''tester''" and stored = None
        and config = "demoConfig [''iss'']" and k = "''iss''"
        and cs = "[(''iss'', VString ''someone.else'')]"
        and role = "\<lparr>Issuer = ''tester.example.com'',
                     Claims = [(''iss'', VString ''someone.else'')],
                     SubjectPattern = None, AudiencePattern = None\<rparr>"])
     (simp_all add: demo_defs)

text \<open>
  Claim C1 as stated fails: with \<open>exp\<close> allow-listed by the configuration, a role whose
  claims set \<open>exp\<close> is written without error and stored.
\<close>

theorem role_write_accepts_allowed_exp:
  "map_of [(''exp'', VInt 1234)] ''exp'' = Some (VInt 1234)
   \<and> fst (pathRolesWrite (demoPlatform (demoConfig [''exp''])) createRequest emptyStorage
            (writeRoleData ''tester'' ''tester.example.com'' [(''exp'', VInt 1234)]))
       = (None, None)
   \<and> entries (snd (pathRolesWrite (demoPlatform (demoConfig [''exp''])) createRequest
                     emptyStorage
                     (writeRoleData ''tester'' ''tester.example.com'' [(''exp'', VInt 1234)])))
         ''role/tester''
       = Some \<lparr>Key = ''role/tester'', Value = ''tester.example.com''\<rparr>"
  by (simp add: demo_defs)

text \<open>
  Claim C4, as the code has it. Every key of the submitted claims map, \<open>aud\<close> included,
  must be enabled in the configuration's allowed-claims map when the role is written: if
  some key is not, the write is refused with the error response \<^verbatim>\<open>claim <key> not permitted\<close>
  for such a key and \<^verbatim>\<open>ErrInvalidRequest\<close>, and the storage is left as it was.
\<close>

theorem role_write_rejects_unlisted_claim:
  assumes "keyRoleName d = Some nm" and "getRole P stg nm = Inr stored"
    and "getConfig P stg = Inr config"
    and "applyFields P req d (case stored of None \<Rightarrow> emptyRole | Some r \<Rightarrow> r) = Inr role"
    and "keyClaims d = Some cs"
    and "\<exists>k\<in>fst ` set cs. allowedClaimsMap config k \<noteq> Some True"
  shows "\<exists>k\<in>fst ` set cs. allowedClaimsMap config k \<noteq> Some True
           \<and> pathRolesWrite P req stg d
               = ((Some (ErrorResponse (''claim '' @ k @ '' not permitted'')),
                   Some ErrInvalidRequest), stg)"
proof -
  have cs: "Claims role = cs"
    using applyFields_Claims[OF assms(4)] assms(5) by simp
  from assms(6) obtain c where c: "firstDisallowed config cs = Some c"
    using firstDisallowed_None[of config cs] by (cases "firstDisallowed config cs") auto
  have "validateClaims config role = Some (''claim '' @ c @ '' not permitted'')"
    using c cs by (simp add: validateClaims_def)
  then have "pathRolesWrite P req stg d
               = ((Some (ErrorResponse (''claim '' @ c @ '' not permitted'')),
                   Some ErrInvalidRequest), stg)"
    using pathRolesWrite_checked[OF assms(1-4)] by simp
  then show ?thesis
    using firstDisallowed_Some[OF c] by blast
qed

text \<open>
  The theorem at work: the configuration allows \<open>foo\<close> only, and the role sets \<open>bar\<close>.
\<close>

theorem role_write_rejects_unlisted_claim_witness:
  "pathRolesWrite (demoPlatform (demoConfig [''foo''])) createRequest emptyStorage
       (writeRoleData ''tester'' ''tester.example.com'' [(''bar'', VString ''baz'')])
     = ((Some (ErrorResponse ''claim bar not permitted''), Some ErrInvalidRequest),
        emptyStorage)"
  using role_write_rejects_unlisted_claim[where nm = "''tester''" and stored = None
        and P = "demoPlatform (demoConfig [''foo''])" and req = createRequest
        and stg = emptyStorage and config = "demoConfig [''foo'']"
        and d = "writeRoleData ''tester'' ''tester.example.com'' [(''bar'', VString ''baz'')]"
        and cs = "[(''bar'', VString ''baz'')]"
        and role = "\<lparr>Issuer = ''tester.example.com'', Claims = [(''bar'', VString ''baz'')],
                     SubjectPattern = None, AudiencePattern = None\<rparr>"]
  by (simp add: demo_defs)

text \<open>
  Claim C4 as stated fails: a role whose claims contain only \<open>aud\<close>, with a value the
  configuration's pattern accepts, is refused when \<open>aud\<close> is not allow-listed.
\<close>

theorem role_write_rejects_unlisted_aud:
  "allowedClaimsMap (demoConfig []) ''aud'' = None
   \<and> MatchString (Config.AudiencePattern (demoConfig [])) ''an audience''
   \<and> pathRolesWrite (demoPlatform (demoConfig [])) createRequest emptyStorage
        (writeRoleData ''tester'' ''tester.example.com'' [(''aud'', VString ''an audience'')])
      = ((Some (ErrorResponse ''claim aud not permitted''), Some ErrInvalidRequest),
         emptyStorage)"
  by (simp add: demo_defs)

section \<open>Writing a role: a failed check stores nothing\<close>

text \<open>
  Claim C8. On a role write that gets as far as the checks, if any of them fails (a claim
  the configuration does not allow, \<open>iss\<close> or \<open>sub\<close> among the claims, a static \<open>aud\<close> that
  the configuration's pattern rejects, a list of audiences that is too long or has an
  entry the pattern rejects, an \<open>aud\<close> that is neither a string nor a list of strings),
  the handler answers an error response with \<^verbatim>\<open>ErrInvalidRequest\<close> and hands the storage
  back as it was: no \<^verbatim>\<open>Put\<close> has been made. Here \<open>role\<close> is the role after the request's
  fields have been applied to it.
\<close>

theorem role_write_failed_check_stores_nothing:
  assumes "keyRoleName d = Some nm" and "getRole P stg nm = Inr stored"
    and "getConfig P stg = Inr config"
    and "applyFields P req d (case stored of None \<Rightarrow> emptyRole | Some r \<Rightarrow> r) = Inr role"
    and "(\<exists>k\<in>fst ` set (Claims role). allowedClaimsMap config k \<noteq> Some True)
       \<or> ''iss'' \<in> fst ` set (Claims role)
       \<or> ''sub'' \<in> fst ` set (Claims role)
       \<or> (\<exists>aud. map_of (Claims role) ''aud'' = Some (VString aud)
              \<and> \<not> MatchString (Config.AudiencePattern config) aud)
       \<or> (\<exists>aud. map_of (Claims role) ''aud'' = Some (VStrings aud)
              \<and> ((MaxAudiences config > -1 \<and> int (length aud) > MaxAudiences config)
                   \<or> (\<exists>e\<in>set aud. \<not> MatchString (Config.AudiencePattern config) e)))
       \<or> (\<exists>v. map_of (Claims role) ''aud'' = Some v
              \<and> (\<forall>s. v \<noteq> VString s) \<and> (\<forall>ss. v \<noteq> VStrings ss))"
  shows "(\<exists>msg. fst (pathRolesWrite P req stg d)
                  = (Some (ErrorResponse msg), Some ErrInvalidRequest))
         \<and> snd (pathRolesWrite P req stg d) = stg
         \<and> putCount (snd (pathRolesWrite P req stg d)) = putCount stg"
proof -
  have "validateClaims config role \<noteq> None"
    unfolding validateClaims_Some_iff audViolation_def
    using assms(5) map_of_keys[of "Claims role" "''iss''"] map_of_keys[of "Claims role" "''sub''"]
    by (auto simp: MatchString_def)
  then show ?thesis
    using pathRolesWrite_checked[OF assms(1-4)] by auto
qed

text \<open>
  The theorem at work: two audiences where the configuration admits one.
\<close>

theorem role_write_failed_check_stores_nothing_witness:
  "(\<exists>msg. fst (pathRolesWrite (demoPlatform listConfig) createRequest emptyStorage
             (writeRoleData ''tester'' ''tester.example.com'' [(''aud'', VStrings [''A'', ''A''])]))
         = (Some (ErrorResponse msg), Some ErrInvalidRequest))
   \<and> snd (pathRolesWrite (demoPlatform listConfig) createRequest emptyStorage
             (writeRoleData ''tester'' ''tester.example.com'' [(''aud'', VStrings [''A'', ''A''])]))
       = emptyStorage
   \<and> putCount (snd (pathRolesWrite (demoPlatform listConfig) createRequest emptyStorage
             (writeRoleData ''tester'' ''tester.example.com'' [(''aud'', VStrings [''A'', ''A''])])))
       = putCount emptyStorage"
  by (rule role_write_failed_check_stores_nothing[where nm = "''tester''" and stored = None
        and config = listConfig
        and role = "\<lparr>Issuer = ''tester.example.com'',
                     Claims = [(''aud'', VStrings [''A'', ''A''])],
                     SubjectPattern = None, AudiencePattern = None\<rparr>"])
     (simp_all add: demo_defs)

section \<open>Writing a role: the static audience is checked against the configuration\<close>

text \<open>
  Claim C9. On a role write that gets as far as the audience check (all claims allowed,
  neither \<open>iss\<close> nor \<open>sub\<close> among them) with a static \<open>aud\<close> in the role's claims, the
  outcome is decided by the configuration alone: a string must match the configuration's
  pattern; a list must not be longer than the configuration's \<^verbatim>\<open>MaxAudiences\<close> (when that
  is greater than \<open>-1\<close>) and each entry must match the configuration's pattern; a value of
  any other type is refused with a message naming its type. If the check passes the role
  goes to \<^verbatim>\<open>setRole\<close>. The role's own audience pattern takes no part.
\<close>

theorem role_write_checks_aud_against_config:
  assumes "keyRoleName d = Some nm" and "getRole P stg nm = Inr stored"
    and "getConfig P stg = Inr config"
    and "applyFields P req d (case stored of None \<Rightarrow> emptyRole | Some r \<Rightarrow> r) = Inr role"
    and "\<forall>k\<in>fst ` set (Claims role). allowedClaimsMap config k = Some True"
    and "''iss'' \<notin> fst ` set (Claims role)" and "''sub'' \<notin> fst ` set (Claims role)"
    and "map_of (Claims role) ''aud'' = Some rawAud"
  shows "pathRolesWrite P req stg d =
     (case rawAud of
        VString aud \<Rightarrow>
          if MatchString (Config.AudiencePattern config) aud
          then (case setRole P stg nm role of (err, stg') \<Rightarrow> ((None, err), stg'))
          else ((Some (ErrorResponse ''validation of 'aud' claim failed''),
                 Some ErrInvalidRequest), stg)
      | VStrings aud \<Rightarrow>
          if MaxAudiences config > -1 \<and> int (length aud) > MaxAudiences config
          then ((Some (ErrorResponse
                         (''too many audience claims: '' @ formatDecimal (length aud))),
                 Some ErrInvalidRequest), stg)
          else if \<forall>audEntry\<in>set aud. MatchString (Config.AudiencePattern config) audEntry
          then (case setRole P stg nm role of (err, stg') \<Rightarrow> ((None, err), stg'))
          else ((Some (ErrorResponse ''validation of 'aud' claim failed''),
                 Some ErrInvalidRequest), stg)
      | _ \<Rightarrow>
          ((Some (ErrorResponse ('''aud' claim was '' @ typeName rawAud
                                 @ '', not string or []string'')),
            Some ErrInvalidRequest), stg))"
proof -
  have fd: "firstDisallowed config (Claims role) = None"
    using assms(5) by (simp add: firstDisallowed_None)
  have iss: "map_of (Claims role) ''iss'' = None"
    and sub: "map_of (Claims role) ''sub'' = None"
    using assms(6,7) map_of_keys[of "Claims role" "''iss''"]
      map_of_keys[of "Claims role" "''sub''"]
    by auto
  show ?thesis
    unfolding pathRolesWrite_checked[OF assms(1-4)]
    by (cases rawAud)
       (simp_all add: validateClaims_def fd iss sub assms(8) allEntriesMatch_iff
          MatchString_def)
qed

text \<open>
  The theorem at work: the request gives the role the audience pattern \<^verbatim>\<open>other\<close>, which
  the static audience does not match; the configuration's pattern accepts it, and the
  role is written.
\<close>

theorem role_write_checks_aud_against_config_witness:
  "(case demoCompile ''other'' of
      Inl err \<Rightarrow> False
    | Inr pattern \<Rightarrow> \<not> MatchString pattern ''an audience'')
   \<and> fst (pathRolesWrite (demoPlatform (demoConfig [''aud''])) createRequest emptyStorage
        ((writeRoleData ''tester'' ''tester.example.com''
            [(''aud'', VString ''an audience'')])
           \<lparr>keyAudiencePattern := Some ''other''\<rparr>)) = (None, None)"
  using role_write_checks_aud_against_config[where P = "demoPlatform (demoConfig [''aud''])"
        and req = createRequest and stg = emptyStorage and nm = "''tester''"
        and stored = None and config = "demoConfig [''aud'']"
        and d = "(writeRoleData ''tester'' ''tester.example.com''
                    [(''aud'', VString ''an audience'')])
                   \<lparr>keyAudiencePattern := Some ''other''\<rparr>"
        and rawAud = "VString ''an audience''"
        and role = "\<lparr>Issuer = ''tester.example.com'',
                     Claims = [(''aud'', VString ''an audience'')],
                     SubjectPattern = None, AudiencePattern = Some (\<lambda>s. s = ''other'')\<rparr>"]
  by (simp add: demo_defs)

section \<open>Reading a role\<close>

text \<open>
  Claim C10. Reading a role name (the route delivers a non-empty one) for which the
  storage holds no entry answers neither a response nor an error, not a not-found error.
  The read answers an error only when the storage \<^verbatim>\<open>Get\<close> fails or the stored entry fails
  to decode, and then it answers no response.
\<close>

theorem role_read_absent_role:
  assumes "keyRoleName d = Some nm" and "nm \<noteq> []"
  shows "(StorageGet stg (pathJoin P keyStorageRolePath nm) = Inr None
            \<longrightarrow> pathRolesRead P stg d = (None, None))
       \<and> (pathRolesRead P stg d = (resp, Some err)
            \<longrightarrow> resp = None
                \<and> (StorageGet stg (pathJoin P keyStorageRolePath nm) = Inl err
                    \<or> (\<exists>entry. StorageGet stg (pathJoin P keyStorageRolePath nm)
                                   = Inr (Some entry)
                                \<and> DecodeJSON P entry = Inl err)))"
  using assms
  by (auto simp: pathRolesRead_def getRole_def GetRoleName_def
           split: option.splits sum.splits if_splits)

text \<open>
  The theorem at work: the role \<^verbatim>\<open>tester\<close> read from an empty storage, and from a storage
  whose \<^verbatim>\<open>Get\<close> fails.
\<close>

theorem role_read_absent_role_witness:
  "pathRolesRead (demoPlatform (demoConfig [])) emptyStorage
       (writeRoleData ''tester'' [] []) = (None, None)
   \<and> pathRolesRead (demoPlatform (demoConfig [])) brokenStorage
       (writeRoleData ''tester'' [] []) = (None, Some (CollaboratorError ''storage down''))
   \<and> StorageGet brokenStorage
        (pathJoin (demoPlatform (demoConfig [])) keyStorageRolePath ''tester'')
       = Inl (CollaboratorError ''storage down'')"
  using role_read_absent_role[where P = "demoPlatform (demoConfig [])" and stg = emptyStorage
          and nm = "''tester''" and d = "writeRoleData ''tester'' [] []"]
        role_read_absent_role[where P = "demoPlatform (demoConfig [])" and stg = brokenStorage
          and nm = "''tester''" and d = "writeRoleData ''tester'' [] []" and resp = None
          and err = "CollaboratorError ''storage down''"]
  by (simp add: demo_defs)

section \<open>Writing a role: the audience ceiling of the schema\<close>

text \<open>
  Claim C3, what the code does. The schema of \<^verbatim>\<open>pathRole\<close> declares a field for a
  role-level maximum number of audiences, but \<^verbatim>\<open>pathRolesWrite\<close> never reads it and the
  \<^verbatim>\<open>Role\<close> struct has no place for it: a write answers the same, and leaves the same
  storage, whatever the request puts in that field.
\<close>

theorem role_write_ignores_max_allowed_audiences:
  "pathRolesWrite P req stg (d\<lparr>keyMaxAllowedAudiences := m\<rparr>) = pathRolesWrite P req stg d"
  by (simp add: pathRolesWrite_def applyFields_ignores_max split: option.splits sum.splits)

section \<open>Signing: what the merge engine refuses\<close>

text \<open>
  Claim C7. A sign request whose claims contain one of the reserved structural keys
  \<open>iss\<close>, \<open>exp\<close>, \<open>iat\<close>, \<open>nbf\<close>, \<open>jti\<close> is refused by the first step of the merge, whatever
  the role and the configuration are, and no token is produced.
\<close>

theorem sign_rejects_reserved_claim:
  assumes "k \<in> fst ` set requestClaims"
    and "k \<in> {''iss'', ''exp'', ''iat'', ''nbf'', ''jti''}"
  shows "\<exists>k'. merge role config ctx requestClaims = Inl (ReservedClaim k')
            \<and> signRequest signer (Some role) config ctx requestClaims
                = Inl (PolicyViolation (ReservedClaim k'))"
proof -
  have "k \<in> set (map fst requestClaims)"
    using assms(1) by simp
  moreover have "k \<in> set reservedStructural"
    using assms(2) by (auto simp: reservedStructural_def)
  ultimately obtain k' where
    "find (\<lambda>k. k \<in> set reservedStructural) (map fst requestClaims) = Some k'"
    using find_Some_ex[of k "map fst requestClaims" "\<lambda>k. k \<in> set reservedStructural"]
    by blast
  then show ?thesis
    by (simp add: merge_def signRequest_def)
qed

text \<open>
  The theorem at work: the request of the test \<^verbatim>\<open>TestRejectReservedClaims\<close>, with \<open>exp\<close>
  allow-listed by the configuration.
\<close>

theorem sign_rejects_reserved_claim_witness:
  "\<exists>k'. merge (testerRole []) (demoConfig [''exp'']) demoContext [(''exp'', VInt 1234)]
            = Inl (ReservedClaim k')
       \<and> signRequest demoSigner (Some (testerRole [])) (demoConfig [''exp'']) demoContext
            [(''exp'', VInt 1234)] = Inl (PolicyViolation (ReservedClaim k'))"
  by (rule sign_rejects_reserved_claim[where k = "''exp''"]) simp_all

text \<open>
  Claim C6. A sign request whose claims contain a key that the role's static claims also
  contain is refused and no token is produced; when the request has no reserved
  structural key, the refusal is the one of step 2 (a role-fixed claim). In particular a
  role with the static claim \<open>aud\<close> makes a request that supplies \<open>aud\<close> fail.
\<close>

theorem sign_rejects_role_fixed_claim:
  assumes "k \<in> fst ` set requestClaims" and "k \<in> fst ` set (Claims role)"
  shows "(\<exists>err. merge role config ctx requestClaims = Inl err
            \<and> signRequest signer (Some role) config ctx requestClaims
                = Inl (PolicyViolation err))
       \<and> ((\<forall>r\<in>fst ` set requestClaims. r \<notin> set reservedStructural)
            \<longrightarrow> (\<exists>k'. merge role config ctx requestClaims = Inl (RoleFixedClaim k')))"
proof -
  have "k \<in> set (map fst requestClaims)"
    using assms(1) by simp
  moreover have "map_of (Claims role) k \<noteq> None"
    using assms(2) by (simp add: map_of_eq_None_iff)
  ultimately obtain k' where
    k': "find (\<lambda>k. map_of (Claims role) k \<noteq> None) (map fst requestClaims) = Some k'"
    using find_Some_ex[of k "map fst requestClaims" "\<lambda>k. map_of (Claims role) k \<noteq> None"]
    by blast
  show ?thesis
  proof (cases "find (\<lambda>k. k \<in> set reservedStructural) (map fst requestClaims)")
    case None
    then show ?thesis
      using k' by (simp add: merge_def signRequest_def)
  next
    case (Some r)
    then have "r \<in> set (map fst requestClaims) \<and> r \<in> set reservedStructural"
      by (auto simp: find_Some_iff)
    then show ?thesis
      using Some by (auto simp: merge_def signRequest_def)
  qed
qed

text \<open>
  The theorem at work: the spec's scenario, a role with the static claim
  \<open>aud = fixed-audience\<close> and a request that supplies \<open>aud = other\<close>.
\<close>

theorem sign_rejects_role_fixed_claim_witness:
  "signRequest demoSigner (Some (testerRole [(''aud'', VString ''fixed-audience'')]))
       (demoConfig [''aud'']) demoContext [(''aud'', VString ''other'')]
     = Inl (PolicyViolation (RoleFixedClaim ''aud''))
   \<and> merge (testerRole [(''aud'', VString ''fixed-audience'')]) (demoConfig [''aud''])
        demoContext [(''aud'', VString ''other'')] = Inl (RoleFixedClaim ''aud'')"
  using sign_rejects_role_fixed_claim[where k = "''aud''"
          and role = "testerRole [(''aud'', VString ''fixed-audience'')]"
          and requestClaims = "[(''aud'', VString ''other'')]"
          and config = "demoConfig [''aud'']" and ctx = demoContext and signer = demoSigner]
  by (simp add: sign_defs)

section \<open>Signing: the audience policy and the composed claim set\<close>

text \<open>
  Claim C2. When the role defines an audience pattern, the effective pattern of a sign
  request is the role's alone, for a single audience and for a list of audiences alike:
  the outcome of the merge does not change when the configuration's pattern is replaced
  by any other; a single audience, or one entry of a list, that the role's pattern rejects
  makes the merge fail; and for a request that passes the steps before the audience check
  and supplies \<open>aud\<close>, the outcome is decided by the role's pattern (and the effective
  ceiling) with the configuration's pattern taking no part: a string is merged exactly
  when the role's pattern matches it, a list within the ceiling exactly when the role's
  pattern matches each entry.
\<close>

theorem sign_role_audience_pattern_wins:
  assumes "Role.AudiencePattern role = Some rolePattern"
  shows "effectiveAudiencePattern role config = rolePattern
       \<and> merge role (config\<lparr>Config.AudiencePattern := otherPattern\<rparr>) ctx requestClaims
           = merge role config ctx requestClaims
       \<and> (map_of requestClaims ''aud'' = Some (VString aud) \<and> \<not> MatchString rolePattern aud
            \<longrightarrow> (\<exists>err. merge role config ctx requestClaims = Inl err))
       \<and> (map_of requestClaims ''aud'' = Some (VStrings auds)
              \<and> (\<exists>audEntry\<in>set auds. \<not> MatchString rolePattern audEntry)
            \<longrightarrow> (\<exists>err. merge role config ctx requestClaims = Inl err))
       \<and> ((\<forall>k\<in>fst ` set requestClaims. k \<notin> {''iss'', ''exp'', ''iat'', ''nbf'', ''jti''})
              \<and> (\<forall>k\<in>fst ` set requestClaims. k \<notin> fst ` set (Claims role))
              \<and> (\<forall>k\<in>fst ` set requestClaims.
                     k = ''aud'' \<or> k = ''sub'' \<or> allowedClaimsMap config k = Some True)
              \<and> map_of requestClaims ''sub'' = None
              \<and> map_of requestClaims ''aud'' = Some rawAud
            \<longrightarrow> merge role config ctx requestClaims =
                  (case rawAud of
                     VString aud \<Rightarrow>
                       if MatchString rolePattern aud
                       then Inr (composeClaims role ctx requestClaims)
                       else Inl AudienceMismatch
                   | VStrings auds \<Rightarrow>
                       if effectiveMaxAudiences role config \<noteq> -1
                          \<and> int (length auds) > effectiveMaxAudiences role config
                       then Inl TooManyAudiences
                       else if \<forall>audEntry\<in>set auds. MatchString rolePattern audEntry
                       then Inr (composeClaims role ctx requestClaims)
                       else Inl AudienceMismatch
                   | _ \<Rightarrow> Inl MalformedAudience))"
proof -
  have eff: "effectiveAudiencePattern role c = rolePattern" for c
    using assms by (simp add: effectiveAudiencePattern_def)
  have chk: "checkAudience role (config\<lparr>Config.AudiencePattern := otherPattern\<rparr>) a
               = checkAudience role config a" for a
    by (simp add: checkAudience_def eff effectiveMaxAudiences_def
             split: option.splits val.splits)
  have indep: "merge role (config\<lparr>Config.AudiencePattern := otherPattern\<rparr>) ctx requestClaims
           = merge role config ctx requestClaims"
    by (simp add: merge_def chk split: option.splits)
  have rej: "\<exists>err. merge role config ctx requestClaims = Inl err"
    if "map_of requestClaims ''aud'' = Some (VString aud)" "\<not> MatchString rolePattern aud"
    using that by (auto simp: merge_def checkAudience_def eff split: option.splits)
  have rejl: "\<exists>err. merge role config ctx requestClaims = Inl err"
    if "map_of requestClaims ''aud'' = Some (VStrings auds)"
       "\<exists>audEntry\<in>set auds. \<not> MatchString rolePattern audEntry"
  proof -
    have "checkAudience role config (Some (VStrings auds)) \<noteq> None"
      using that(2) by (auto simp: checkAudience_def eff list_all_iff)
    then show ?thesis
      using that(1) by (auto simp: merge_def split: option.splits)
  qed
  have full: "merge role config ctx requestClaims =
                  (case rawAud of
                     VString aud \<Rightarrow>
                       if MatchString rolePattern aud
                       then Inr (composeClaims role ctx requestClaims)
                       else Inl AudienceMismatch
                   | VStrings auds \<Rightarrow>
                       if effectiveMaxAudiences role config \<noteq> -1
                          \<and> int (length auds) > effectiveMaxAudiences role config
                       then Inl TooManyAudiences
                       else if \<forall>audEntry\<in>set auds. MatchString rolePattern audEntry
                       then Inr (composeClaims role ctx requestClaims)
                       else Inl AudienceMismatch
                   | _ \<Rightarrow> Inl MalformedAudience)"
    if r: "\<forall>k\<in>fst ` set requestClaims. k \<notin> {''iss'', ''exp'', ''iat'', ''nbf'', ''jti''}"
      and f: "\<forall>k\<in>fst ` set requestClaims. k \<notin> fst ` set (Claims role)"
      and a: "\<forall>k\<in>fst ` set requestClaims.
                     k = ''aud'' \<or> k = ''sub'' \<or> allowedClaimsMap config k = Some True"
      and s: "map_of requestClaims ''sub'' = None"
      and au: "map_of requestClaims ''aud'' = Some rawAud"
  proof -
    have s1: "find (\<lambda>k. k \<in> set reservedStructural) (map fst requestClaims) = None"
      using r by (auto simp: find_None_iff reservedStructural_def)
    have s2: "find (\<lambda>k. map_of (Claims role) k \<noteq> None) (map fst requestClaims) = None"
      using f map_of_keys[of "Claims role"] by (auto simp: find_None_iff)
    have s3: "find (\<lambda>k. k \<noteq> ''aud'' \<and> k \<noteq> ''sub'' \<and> allowedClaimsMap config k \<noteq> Some True)
                (map fst requestClaims) = None"
      using a by (auto simp: find_None_iff)
    have m: "merge role config ctx requestClaims =
               (case checkAudience role config (Some rawAud) of
                  Some err \<Rightarrow> Inl err
                | None \<Rightarrow> Inr (composeClaims role ctx requestClaims))"
      unfolding merge_def s1 s2 s3 s au by (simp add: checkSubject_def)
    show ?thesis
      unfolding m
      by (cases rawAud) (simp_all add: checkAudience_def eff list_all_iff)
  qed
  show ?thesis
    using eff indep rej rejl full by blast
qed

text \<open>
  The theorem at work: the role's pattern accepts \<^verbatim>\<open>A\<close> only and the configuration's
  accepts nothing. The audience \<^verbatim>\<open>A\<close> and the list \<^verbatim>\<open>[A, A]\<close> are merged; the audience
  \<^verbatim>\<open>B\<close> and the list \<^verbatim>\<open>[A, B]\<close> are refused.
\<close>

theorem sign_role_audience_pattern_wins_witness:
  "\<not> MatchString (Config.AudiencePattern strictConfig) ''A''
   \<and> (case merge (patternRole ''A'') strictConfig demoContext [(''aud'', VString ''A'')] of
        Inl err \<Rightarrow> False
      | Inr final \<Rightarrow> final ''aud'' = Some (VString ''A''))
   \<and> merge (patternRole ''A'') strictConfig demoContext [(''aud'', VString ''B'')]
       = Inl AudienceMismatch
   \<and> (case merge (patternRole ''A'') strictConfig demoContext
               [(''aud'', VStrings [''A'', ''A''])] of
        Inl err \<Rightarrow> False
      | Inr final \<Rightarrow> final ''aud'' = Some (VStrings [''A'', ''A'']))
   \<and> merge (patternRole ''A'') strictConfig demoContext [(''aud'', VStrings [''A'', ''B''])]
       = Inl AudienceMismatch"
  using sign_role_audience_pattern_wins[where role = "patternRole ''A''"
          and rolePattern = "\<lambda>s. s = ''A''" and config = strictConfig
          and otherPattern = "\<lambda>s. True" and ctx = demoContext
          and requestClaims = "[(''aud'', VString ''A'')]" and rawAud = "VString ''A''"]
        sign_role_audience_pattern_wins[where role = "patternRole ''A''"
          and rolePattern = "\<lambda>s. s = ''A''" and config = strictConfig
          and ctx = demoContext and aud = "''B''"
          and requestClaims = "[(''aud'', VString ''B'')]" and rawAud = "VString ''B''"]
        sign_role_audience_pattern_wins[where role = "patternRole ''A''"
          and rolePattern = "\<lambda>s. s = ''A''" and config = strictConfig
          and ctx = demoContext
          and requestClaims = "[(''aud'', VStrings [''A'', ''A''])]"
          and rawAud = "VStrings [''A'', ''A'']"]
        sign_role_audience_pattern_wins[where role = "patternRole ''A''"
          and rolePattern = "\<lambda>s. s = ''A''" and config = strictConfig
          and ctx = demoContext and auds = "[''A'', ''B'']"
          and requestClaims = "[(''aud'', VStrings [''A'', ''B''])]"
          and rawAud = "VStrings [''A'', ''B'']"]
  by (simp add: sign_defs)

text \<open>
  Claim C5. For a role with the issuer \<^verbatim>\<open>tester.example.com\<close>, no static claims and no
  audience restriction of its own, a configuration whose audience pattern accepts \<^verbatim>\<open>A\<close>
  and \<^verbatim>\<open>B\<close> and whose ceiling admits two audiences (whatever its allowed claims are, so
  also when there are none), and the request claims \<open>aud = [A, B]\<close>: the merge succeeds,
  the merged set goes to the signer, and it has \<open>iss\<close> equal to the role's issuer, \<open>aud\<close>
  equal to \<open>[A, B]\<close>, no \<open>sub\<close>, and \<open>exp\<close> equal to \<open>iat\<close> plus the token lifetime.
\<close>

theorem sign_scenario_audience_list:
  assumes "Issuer role = ''tester.example.com''" and "Claims role = []"
    and "Role.AudiencePattern role = None" and "maxAudiences role = None"
    and "MatchString (Config.AudiencePattern config) ''A''"
    and "MatchString (Config.AudiencePattern config) ''B''"
    and "MaxAudiences config = -1 \<or> 2 \<le> MaxAudiences config"
  shows "\<exists>final. merge role config ctx [(''aud'', VStrings [''A'', ''B''])] = Inr final
           \<and> signRequest signer (Some role) config ctx [(''aud'', VStrings [''A'', ''B''])]
               = Inr (signer final)
           \<and> final ''iss'' = Some (VString ''tester.example.com'')
           \<and> final ''aud'' = Some (VStrings [''A'', ''B''])
           \<and> final ''sub'' = None
           \<and> final ''iat'' = Some (VInt (now ctx))
           \<and> final ''exp'' = Some (VInt (now ctx + lifetime ctx))"
proof -
  have "checkAudience role config (Some (VStrings [''A'', ''B''])) = None"
    using assms(3-7)
    by (auto simp: checkAudience_def effectiveAudiencePattern_def effectiveMaxAudiences_def)
  then have "merge role config ctx [(''aud'', VStrings [''A'', ''B''])]
               = Inr (composeClaims role ctx [(''aud'', VStrings [''A'', ''B''])])"
    using assms(2) by (simp add: merge_def reservedStructural_def checkSubject_def)
  then show ?thesis
    using assms(1,2) by (simp add: signRequest_def composeClaims_def)
qed

text \<open>
  The theorem at work: the configuration has no allowed claims, accepts every audience
  and sets no ceiling; the clock stands at 0 and the lifetime is three minutes.
\<close>

theorem sign_scenario_audience_list_witness:
  "allowedClaimsMap (demoConfig []) = Map.empty
   \<and> (case merge (testerRole []) (demoConfig []) demoContext
             [(''aud'', VStrings [''A'', ''B''])] of
        Inl err \<Rightarrow> False
      | Inr final \<Rightarrow>
          final ''iss'' = Some (VString ''tester.example.com'')
          \<and> final ''aud'' = Some (VStrings [''A'', ''B''])
          \<and> final ''sub'' = None
          \<and> final ''iat'' = Some (VInt 0)
          \<and> final ''exp'' = Some (VInt 180))"
  using sign_scenario_audience_list[where role = "testerRole []" and config = "demoConfig []"
          and ctx = demoContext and signer = demoSigner]
  by (auto simp: sign_defs)

end
